theory Spec2Isabelle
  imports Complex_Main
begin

section \<open>Text\<close>

text \<open>
  A Python \<open>str\<close> is a sequence of Unicode code points, and \<open>len\<close>, slicing and the
  regular expressions of \<open>utils.py\<close> count code points. A string is therefore a list of
  code points, each a natural number; \<open>u ''abc''\<close> is the string of an ASCII literal.
\<close>

type_synonym pystr = "nat list"

definition u :: "string \<Rightarrow> pystr" where
  "u s = map of_char s"

text \<open>
  The code points on which \<open>str.isspace\<close> holds; \<open>str.strip\<close> and the class \<open>\s\<close> of a
  \<open>str\<close> pattern use the same predicate.
\<close>

definition is_space :: "nat \<Rightarrow> bool" where
  "is_space c \<longleftrightarrow>
     (9 \<le> c \<and> c \<le> 13) \<or> (28 \<le> c \<and> c \<le> 32) \<or> c = 133 \<or> c = 160 \<or> c = 5760 \<or>
     (8192 \<le> c \<and> c \<le> 8202) \<or> c = 8232 \<or> c = 8233 \<or> c = 8239 \<or> c = 8287 \<or> c = 12288"

definition lstrip :: "pystr \<Rightarrow> pystr" where
  "lstrip s = dropWhile is_space s"

definition rstrip :: "pystr \<Rightarrow> pystr" where
  "rstrip s = rev (dropWhile is_space (rev s))"

definition strip :: "pystr \<Rightarrow> pystr" where
  "strip s = rstrip (lstrip s)"

section \<open>Regular expressions\<close>

text \<open>
  The patterns of \<open>utils.py\<close> are sequences of repeated character classes, one capture
  group and the anchor \<open>$\<close>. \<open>Rep cls lo hi greedy\<close> is the class \<open>cls\<close> repeated \<open>lo\<close> to
  \<open>hi\<close> times (\<open>None\<close>: unbounded), greedy or lazy; \<open>Open\<close> and \<open>Close\<close> delimit group 1.
  \<open>rmatch\<close> is the backtracking matcher of Python's \<open>re\<close>: it tries the alternatives of
  each repetition in priority order (greedy: longest first, lazy: shortest first) and
  returns the first complete match, as the span of group 1 and the end of the match,
  both counted from the start of the match.
\<close>

datatype item = Rep "nat \<Rightarrow> bool" nat "nat option" bool | Open | Close | Eos

fun rmatch :: "item list \<Rightarrow> pystr \<Rightarrow> nat \<Rightarrow> nat \<times> nat \<Rightarrow> ((nat \<times> nat) \<times> nat) option" where
  "rmatch [] s p g = Some (g, p)"
| "rmatch (Open # its) s p g = rmatch its s p (p, snd g)"
| "rmatch (Close # its) s p g = rmatch its s p (fst g, p)"
| "rmatch (Eos # its) s p g = (if s = [] \<or> s = [10] then rmatch its s p g else None)"
| "rmatch (Rep cls lo hi greedy # its) [] p g = (if lo = 0 then rmatch its [] p g else None)"
| "rmatch (Rep cls lo hi greedy # its) (c # cs) p g =
     (if cls c \<and> hi \<noteq> Some 0 then
        (if greedy then
           (case rmatch (Rep cls (lo - 1) (map_option (\<lambda>h. h - 1) hi) greedy # its) cs (Suc p) g of
              Some r \<Rightarrow> Some r
            | None \<Rightarrow> if lo = 0 then rmatch its (c # cs) p g else None)
         else if lo = 0 then
           (case rmatch its (c # cs) p g of
              Some r \<Rightarrow> Some r
            | None \<Rightarrow> rmatch (Rep cls (lo - 1) (map_option (\<lambda>h. h - 1) hi) greedy # its) cs (Suc p) g)
         else rmatch (Rep cls (lo - 1) (map_option (\<lambda>h. h - 1) hi) greedy # its) cs (Suc p) g)
      else if lo = 0 then rmatch its (c # cs) p g else None)"

text \<open>Pattern fragments: a literal, \<open>x*\<close>, \<open>x+\<close>, \<open>x?\<close>, \<open>x*?\<close>, \<open>x+?\<close>, and the classes used.\<close>

definition lit :: "pystr \<Rightarrow> item list" where
  "lit s = map (\<lambda>c. Rep (\<lambda>x. x = c) 1 (Some 1) True) s"

definition star :: "(nat \<Rightarrow> bool) \<Rightarrow> item" where
  "star cls = Rep cls 0 None True"

definition plus :: "(nat \<Rightarrow> bool) \<Rightarrow> item" where
  "plus cls = Rep cls 1 None True"

definition opt :: "(nat \<Rightarrow> bool) \<Rightarrow> item" where
  "opt cls = Rep cls 0 (Some 1) True"

definition lazy_star :: "(nat \<Rightarrow> bool) \<Rightarrow> item" where
  "lazy_star cls = Rep cls 0 None False"

definition lazy_plus :: "(nat \<Rightarrow> bool) \<Rightarrow> item" where
  "lazy_plus cls = Rep cls 1 None False"

definition any_char :: "nat \<Rightarrow> bool" where
  "any_char c = True"

definition not_newline :: "nat \<Rightarrow> bool" where
  "not_newline c \<longleftrightarrow> c \<noteq> 10"

definition is_char :: "char \<Rightarrow> nat \<Rightarrow> bool" where
  "is_char a c \<longleftrightarrow> c = of_char a"

text \<open>\<open>re.match\<close>: a match at the start of the string.\<close>

definition re_match :: "item list \<Rightarrow> pystr \<Rightarrow> ((nat \<times> nat) \<times> nat) option" where
  "re_match pat s = rmatch pat s 0 (0, 0)"

definition group1 :: "pystr \<Rightarrow> (nat \<times> nat) \<times> nat \<Rightarrow> pystr" where
  "group1 s m = take (snd (fst m) - fst (fst m)) (drop (fst (fst m)) s)"

definition group0 :: "pystr \<Rightarrow> (nat \<times> nat) \<times> nat \<Rightarrow> pystr" where
  "group0 s m = take (snd m) s"

text \<open>
  \<open>re.search\<close>: the match at the leftmost position that has one; the result is the
  suffix of the string at that position, with the match there.
\<close>

fun re_search :: "item list \<Rightarrow> pystr \<Rightarrow> (pystr \<times> (nat \<times> nat) \<times> nat) option" where
  "re_search pat [] = map_option (\<lambda>m. ([], m)) (re_match pat [])"
| "re_search pat (c # cs) =
     (case re_match pat (c # cs) of
        Some m \<Rightarrow> Some (c # cs, m)
      | None \<Rightarrow> re_search pat cs)"

text \<open>
  \<open>re.sub\<close> with a replacement that has no group reference: every match is replaced,
  scanning left to right; after an empty match the next character is copied.
\<close>

fun re_sub :: "item list \<Rightarrow> pystr \<Rightarrow> pystr \<Rightarrow> pystr" where
  "re_sub pat repl [] = (case re_match pat [] of Some m \<Rightarrow> repl | None \<Rightarrow> [])"
| "re_sub pat repl (c # cs) =
     (case re_match pat (c # cs) of
        Some m \<Rightarrow>
          (if snd m = 0 then repl @ c # re_sub pat repl cs
           else repl @ re_sub pat repl (drop (snd m) (c # cs)))
      | None \<Rightarrow> c # re_sub pat repl cs)"

text \<open>\<open>str.split\<close> on one separator character, and \<open>str.startswith\<close>.\<close>

fun split_on :: "nat \<Rightarrow> pystr \<Rightarrow> pystr list" where
  "split_on sep [] = [] # []"
| "split_on sep (c # cs) =
     (if c = sep then [] # split_on sep cs
      else (case split_on sep cs of
              [] \<Rightarrow> [c] # []
            | l # ls \<Rightarrow> (c # l) # ls))"

fun startswith :: "pystr \<Rightarrow> pystr \<Rightarrow> bool" where
  "startswith s [] = True"
| "startswith [] (k # ks) = False"
| "startswith (c # cs) (k # ks) = (c = k \<and> startswith cs ks)"

text \<open>\<open>s.strip(chars)\<close>: the characters of \<open>chars\<close> are removed from both ends.\<close>

definition strip_chars :: "pystr \<Rightarrow> pystr \<Rightarrow> pystr" where
  "strip_chars chars s =
     rev (dropWhile (\<lambda>c. c \<in> set chars) (rev (dropWhile (\<lambda>c. c \<in> set chars) s)))"

section \<open>JSON values\<close>

text \<open>
  The values \<open>json.loads\<close> returns. An object carries its members in document order;
  \<open>py_dict\<close> is the \<open>dict\<close> built from them: a repeated key keeps its first position
  and takes its last value. A float is a finite real, an infinity or a NaN.
\<close>

datatype pyfloat = Finite real | PosInf | NegInf | NaN

datatype json =
    JNull
  | JBool bool
  | JInt int
  | JFloat pyfloat
  | JStr pystr
  | JArr "json list"
  | JObj "(pystr \<times> json) list"

fun dict_set :: "('k \<times> 'v) list \<Rightarrow> 'k \<Rightarrow> 'v \<Rightarrow> ('k \<times> 'v) list" where
  "dict_set [] k v = [(k, v)]"
| "dict_set ((k', v') # d) k v =
     (if k' = k then (k, v) # d else (k', v') # dict_set d k v)"

definition py_dict :: "('k \<times> 'v) list \<Rightarrow> ('k \<times> 'v) list" where
  "py_dict pairs = foldl (\<lambda>d (k, v). dict_set d k v) [] pairs"

text \<open>Truth value of a JSON value in a Python condition.\<close>

fun truthy :: "json \<Rightarrow> bool" where
  "truthy JNull = False"
| "truthy (JBool b) = b"
| "truthy (JInt n) = (n \<noteq> 0)"
| "truthy (JFloat f) = (f \<noteq> Finite 0)"
| "truthy (JStr s) = (s \<noteq> [])"
| "truthy (JArr xs) = (xs \<noteq> [])"
| "truthy (JObj kvs) = (kvs \<noteq> [])"

datatype exn = AttributeError | TypeError

section \<open>utils.py\<close>

definition sanitize_input :: "pystr \<Rightarrow> pystr" where
  "sanitize_input text0 =
     (let text1 = strip text0;
          text2 = re_sub [plus is_space] (u '' '') text1
      in take 2000 text2)"

text \<open>
  The first pattern of \<open>extract_json_from_response\<close>, compiled with \<open>re.DOTALL\<close>, and
  the same pattern without its group in \<open>strip_json_from_response\<close>.
\<close>

definition fenced_group_re :: "item list" where
  "fenced_group_re =
     lit (u ''```json'') @ [star is_space, Open] @ lit (u ''{'') @ [lazy_star any_char] @
     lit (u ''}'') @ [Close, star is_space] @ lit (u ''```'')"

definition fenced_re :: "item list" where
  "fenced_re =
     lit (u ''```json'') @ [star is_space] @ lit (u ''{'') @ [lazy_star any_char] @
     lit (u ''}'') @ [star is_space] @ lit (u ''```'')"

definition not_brace :: "nat \<Rightarrow> bool" where
  "not_brace c \<longleftrightarrow> c \<noteq> of_char CHR ''{'' \<and> c \<noteq> of_char CHR ''}''"

definition quoted_extracted :: pystr where
  "quoted_extracted = [34] @ u ''extracted'' @ [34]"

definition raw_re :: "item list" where
  "raw_re =
     lit (u ''{'') @ [star not_brace] @ lit quoted_extracted @ [star not_brace] @
     lit (u ''{'') @ [lazy_star any_char] @ lit (u ''}'') @ [lazy_star any_char] @ lit (u ''}'')"

text \<open>
  \<open>loads\<close> is \<open>json.loads\<close>, with \<open>None\<close> where it raises \<open>JSONDecodeError\<close>.
\<close>

definition extract_json_from_response :: "(pystr \<Rightarrow> json option) \<Rightarrow> pystr \<Rightarrow> json option" where
  "extract_json_from_response loads response =
     (let fenced = (case re_search fenced_group_re response of
                      Some (s, m) \<Rightarrow> loads (group1 s m)
                    | None \<Rightarrow> None)
      in case fenced of
           Some j \<Rightarrow> Some j
         | None \<Rightarrow>
             (case re_search raw_re response of
                Some (s, m) \<Rightarrow> loads (group0 s m)
              | None \<Rightarrow> None))"

definition strip_json_from_response :: "pystr \<Rightarrow> pystr" where
  "strip_json_from_response response =
     (let cleaned1 = re_sub fenced_re [] response;
          cleaned2 = re_sub raw_re [] cleaned1
      in re_sub [Rep (\<lambda>c. c = 10) 3 None True] [10, 10] (strip cleaned2))"

text \<open>\<open>lower\<close> is \<open>str.lower\<close>; the keyword set is given as a list.\<close>

definition check_exit_intent :: "(pystr \<Rightarrow> pystr) \<Rightarrow> pystr \<Rightarrow> pystr list \<Rightarrow> bool" where
  "check_exit_intent lower message exit_keywords =
     (let normalized = lower (strip message)
      in if normalized \<in> set exit_keywords then True
         else list_ex (\<lambda>keyword. startswith normalized keyword) exit_keywords)"

text \<open>
  The class \<open>\d\<close> of a \<open>str\<close> pattern: the decimal digits of Unicode 14.0, in runs
  of ten from the listed zeros, and the fifty mathematical digits.
\<close>

definition digit_zeros :: "nat list" where
  "digit_zeros =
     [48, 1632, 1776, 1984, 2406, 2534, 2662, 2790, 2918, 3046, 3174, 3302, 3430, 3558,
      3664, 3792, 3872, 4160, 4240, 6112, 6160, 6470, 6608, 6784, 6800, 6992, 7088, 7232,
      7248, 42528, 43216, 43264, 43472, 43504, 43600, 44016, 65296, 66720, 68912, 69734,
      69872, 69942, 70096, 70384, 70736, 70864, 71248, 71360, 71472, 71904, 72016, 72784,
      73040, 73120, 92768, 92864, 93008, 123200, 123632, 125264, 130032]"

definition is_digit :: "nat \<Rightarrow> bool" where
  "is_digit c \<longleftrightarrow>
     list_ex (\<lambda>z. z \<le> c \<and> c < z + 10) digit_zeros \<or> (120782 \<le> c \<and> c < 120832)"

text \<open>The four patterns of \<open>parse_technical_questions\<close>; 128313 is the blue diamond, 8226 the bullet.\<close>

definition header_re :: "item list" where
  "header_re =
     [Rep (is_char CHR ''#'') 1 (Some 4) True, star is_space,
      star (\<lambda>c. c = 128313 \<or> c = of_char CHR ''*''), star is_space,
      opt (is_char CHR ''[''), star is_space,
      Open, lazy_plus not_newline, Close,
      star is_space, opt (is_char CHR '']''), star is_space,
      star (is_char CHR ''*''), star is_space, Eos]"

definition bold_re :: "item list" where
  "bold_re =
     lit (u ''**'') @ [Open, lazy_plus not_newline, Close] @ lit (u ''**'') @ [star is_space, Eos]"

definition numbered_re :: "item list" where
  "numbered_re =
     [plus is_digit, Rep (\<lambda>c. c = of_char CHR ''.'' \<or> c = of_char CHR '')'') 1 (Some 1) True,
      star is_space, Open, plus not_newline, Close, Eos]"

definition bullet_re :: "item list" where
  "bullet_re =
     [Rep (\<lambda>c. c = of_char CHR ''-'' \<or> c = 8226) 1 (Some 1) True,
      star is_space, Open, plus not_newline, Close, Eos]"

definition match_either :: "item list \<Rightarrow> item list \<Rightarrow> pystr \<Rightarrow> pystr option" where
  "match_either pat1 pat2 line =
     (case re_match pat1 line of
        Some m \<Rightarrow> Some (group1 line m)
      | None \<Rightarrow> map_option (group1 line) (re_match pat2 line))"

record tech_group =
  technology :: pystr
  questions :: "pystr list"

text \<open>
  The loop of \<open>parse_technical_questions\<close> over the lines, with its three variables:
  \<open>result\<close>, \<open>current_tech\<close> and \<open>current_questions\<close>; then the flush after the loop.
\<close>

definition flush :: "tech_group list \<Rightarrow> pystr option \<Rightarrow> pystr list \<Rightarrow> tech_group list" where
  "flush result current_tech current_questions =
     (case current_tech of
        None \<Rightarrow> result
      | Some t \<Rightarrow>
          if t \<noteq> [] \<and> current_questions \<noteq> []
          then result @ [\<lparr>technology = t, questions = current_questions\<rparr>]
          else result)"

fun parse_lines :: "pystr list \<Rightarrow> tech_group list \<Rightarrow> pystr option \<Rightarrow> pystr list \<Rightarrow> tech_group list" where
  "parse_lines [] result current_tech current_questions =
     flush result current_tech current_questions"
| "parse_lines (raw # rest) result current_tech current_questions =
     (let line = strip raw in
      if line = [] then parse_lines rest result current_tech current_questions
      else
        (case match_either header_re bold_re line of
           Some g \<Rightarrow>
             parse_lines rest (flush result current_tech current_questions)
               (Some (strip (strip_chars [128313] (strip g)))) []
         | None \<Rightarrow>
             (case match_either numbered_re bullet_re line of
                Some g \<Rightarrow>
                  (let question = strip g in
                   if current_tech \<noteq> None \<and> current_tech \<noteq> Some [] \<and>
                      question \<noteq> [] \<and> length question > 10
                   then parse_lines rest result current_tech (current_questions @ [question])
                   else parse_lines rest result current_tech current_questions)
              | None \<Rightarrow> parse_lines rest result current_tech current_questions)))"

definition parse_technical_questions :: "pystr \<Rightarrow> tech_group list" where
  "parse_technical_questions response = parse_lines (split_on 10 response) [] None []"

section \<open>models.py\<close>

datatype ConversationState =
  GREETING | GATHERING_INFO | TECH_QUESTIONS | ANSWERING_QUESTIONS | CLOSING | ENDED

fun state_value :: "ConversationState \<Rightarrow> pystr" where
  "state_value GREETING = u ''greeting''"
| "state_value GATHERING_INFO = u ''gathering_info''"
| "state_value TECH_QUESTIONS = u ''tech_questions''"
| "state_value ANSWERING_QUESTIONS = u ''answering_questions''"
| "state_value CLOSING = u ''closing''"
| "state_value ENDED = u ''ended''"

record CandidateInfo =
  full_name :: "pystr option"
  email :: "pystr option"
  phone :: "pystr option"
  years_of_experience :: "pystr option"
  desired_positions :: "pystr option"
  current_location :: "pystr option"
  tech_stack :: "pystr option"

text \<open>
  The engine reads and writes the profile through \<open>getattr\<close> and \<open>setattr\<close> with the
  attribute name as a string. \<open>field\<close> names the seven attributes that are model fields.
\<close>

datatype field =
  Full_name | Email | Phone | Years_of_experience | Desired_positions | Current_location | Tech_stack

definition model_fields :: "field list" where
  "model_fields =
     [Full_name, Email, Phone, Years_of_experience, Desired_positions, Current_location, Tech_stack]"

fun field_name :: "field \<Rightarrow> pystr" where
  "field_name Full_name = u ''full_name''"
| "field_name Email = u ''email''"
| "field_name Phone = u ''phone''"
| "field_name Years_of_experience = u ''years_of_experience''"
| "field_name Desired_positions = u ''desired_positions''"
| "field_name Current_location = u ''current_location''"
| "field_name Tech_stack = u ''tech_stack''"

fun getattr :: "CandidateInfo \<Rightarrow> field \<Rightarrow> pystr option" where
  "getattr c Full_name = full_name c"
| "getattr c Email = email c"
| "getattr c Phone = phone c"
| "getattr c Years_of_experience = years_of_experience c"
| "getattr c Desired_positions = desired_positions c"
| "getattr c Current_location = current_location c"
| "getattr c Tech_stack = tech_stack c"

fun setattr :: "CandidateInfo \<Rightarrow> field \<Rightarrow> pystr option \<Rightarrow> CandidateInfo" where
  "setattr c Full_name v = c\<lparr>full_name := v\<rparr>"
| "setattr c Email v = c\<lparr>email := v\<rparr>"
| "setattr c Phone v = c\<lparr>phone := v\<rparr>"
| "setattr c Years_of_experience v = c\<lparr>years_of_experience := v\<rparr>"
| "setattr c Desired_positions v = c\<lparr>desired_positions := v\<rparr>"
| "setattr c Current_location v = c\<lparr>current_location := v\<rparr>"
| "setattr c Tech_stack v = c\<lparr>tech_stack := v\<rparr>"

definition field_of_name :: "pystr \<Rightarrow> field option" where
  "field_of_name name = find (\<lambda>f. field_name f = name) model_fields"

definition empty_candidate :: CandidateInfo where
  "empty_candidate =
     \<lparr>full_name = None, email = None, phone = None, years_of_experience = None,
      desired_positions = None, current_location = None, tech_stack = None\<rparr>"

definition model_dump :: "CandidateInfo \<Rightarrow> (pystr \<times> pystr option) list" where
  "model_dump c = map (\<lambda>f. (field_name f, getattr c f)) model_fields"

definition get_filled_fields :: "CandidateInfo \<Rightarrow> (pystr \<times> pystr) list" where
  "get_filled_fields c =
     concat (map (\<lambda>(k, v). case v of None \<Rightarrow> [] | Some x \<Rightarrow> [(k, x)]) (model_dump c))"

definition get_missing_fields :: "CandidateInfo \<Rightarrow> pystr list" where
  "get_missing_fields c =
     concat (map (\<lambda>(k, v). case v of None \<Rightarrow> [k] | Some x \<Rightarrow> []) (model_dump c))"

definition is_complete :: "CandidateInfo \<Rightarrow> bool" where
  "is_complete c \<longleftrightarrow> length (get_missing_fields c) = 0"

text \<open>
  \<open>int((filled / total) * 100)\<close>. The source divides in double precision; \<open>total\<close> is 7
  and \<open>filled\<close> at most 7, and on these eight quotients the truncated double product
  is the truncated exact product, which is what the definition computes.
\<close>

definition get_completion_percentage :: "CandidateInfo \<Rightarrow> int" where
  "get_completion_percentage c =
     (let total = length (model_dump c);
          filled = length (get_filled_fields c)
      in \<lfloor>(real filled / real total) * 100\<rfloor>)"

fun join :: "pystr \<Rightarrow> pystr list \<Rightarrow> pystr" where
  "join sep [] = []"
| "join sep [x] = x"
| "join sep (x # y # ys) = x @ sep @ join sep (y # ys)"

fun field_label :: "field \<Rightarrow> pystr" where
  "field_label Full_name = [128100] @ u '' Name''"
| "field_label Email = [128231] @ u '' Email''"
| "field_label Phone = [128241] @ u '' Phone''"
| "field_label Years_of_experience = [128197] @ u '' Experience''"
| "field_label Desired_positions = [128188] @ u '' Position(s)''"
| "field_label Current_location = [128205] @ u '' Location''"
| "field_label Tech_stack = [128736, 65039] @ u '' Tech Stack''"

definition get_summary :: "CandidateInfo \<Rightarrow> pystr" where
  "get_summary c =
     join [10]
       (map (\<lambda>f. case getattr c f of
                    None \<Rightarrow> u ''**'' @ field_label f @ u ''**: _Pending..._''
                  | Some v \<Rightarrow>
                      if v \<noteq> [] then u ''**'' @ field_label f @ u ''**: '' @ v
                      else u ''**'' @ field_label f @ u ''**: _Pending..._'')
          model_fields)"

section \<open>The environment of the engine\<close>

text \<open>
  A chat message is a role and a content. A request is what \<open>get_chat_response\<close> hands to
  \<open>client.chat.completions.create\<close>.
\<close>

datatype role = System | User | Assistant

type_synonym message = "role \<times> pystr"

record request =
  model :: pystr
  req_messages :: "message list"
  temperature :: real
  max_tokens :: nat

text \<open>
  What the engine takes from outside \<open>src/\<close>:
  \<^item> \<open>completions_create n r\<close> is the provider's answer to request \<open>r\<close>, made after \<open>n\<close>
    earlier requests: the content of the first choice, or \<open>None\<close> where the call raises.
    Every behaviour of the provider over a conversation is such a function.
  \<^item> \<open>lower\<close> is \<open>str.lower\<close>, \<open>loads\<close> is \<open>json.loads\<close> (\<open>None\<close>: it raises),
    \<open>str_of\<close> is \<open>str\<close> on a JSON value that is not a string, \<open>repr_of\<close> is \<open>repr\<close> on a
    string, and \<open>sentiment_result s c\<close> is the \<open>sentiment\<close> of the pydantic object
    \<open>SentimentResult(sentiment=s, confidence=c)\<close>, or \<open>None\<close> where its validation raises.
  \<^item> The templates of \<open>prompts.py\<close>, each as the function \<open>str.format\<close> makes of it.
\<close>

record env =
  completions_create :: "nat \<Rightarrow> request \<Rightarrow> pystr option"
  lower :: "pystr \<Rightarrow> pystr"
  loads :: "pystr \<Rightarrow> json option"
  str_of :: "json \<Rightarrow> pystr"
  repr_of :: "pystr \<Rightarrow> pystr"
  sentiment_result :: "json \<Rightarrow> json \<Rightarrow> pystr option"
  SYSTEM_PROMPT :: "pystr \<Rightarrow> pystr \<Rightarrow> pystr"
  GREETING_PROMPT :: pystr
  INFO_GATHERING_PROMPT :: "(field \<Rightarrow> pystr) \<Rightarrow> pystr"
  TECH_QUESTIONS_PROMPT :: "pystr \<Rightarrow> pystr \<Rightarrow> pystr \<Rightarrow> pystr \<Rightarrow> pystr"
  FALLBACK_PROMPT :: "pystr \<Rightarrow> pystr \<Rightarrow> pystr"
  CLOSING_PROMPT :: "pystr \<Rightarrow> pystr \<Rightarrow> pystr"
  EXIT_DETECTED_PROMPT :: "pystr \<Rightarrow> pystr \<Rightarrow> pystr"
  SENTIMENT_PROMPT :: "pystr \<Rightarrow> pystr"

section \<open>config.py\<close>

definition MODEL_NAME :: pystr where
  "MODEL_NAME = u ''llama-3.3-70b-versatile''"

definition TEMPERATURE :: real where
  "TEMPERATURE = 7 / 10"

definition MAX_TOKENS :: nat where
  "MAX_TOKENS = 1024"

definition EXIT_KEYWORDS :: "pystr list" where
  "EXIT_KEYWORDS =
     [u ''bye'', u ''goodbye'', u ''exit'', u ''quit'', u ''end'', u ''stop'',
      u ''thanks bye'', u ''thank you bye'', u ''see you'', u ''later'',
      u ''done'', u ''finish'', u ''end conversation'', u ''close'',
      u ''no more'', u ''that'' @ [39] @ u ''s all'', u ''i'' @ [39] @ u ''m done'', u ''im done'']"

section \<open>llm_client.py\<close>

definition fallback_text :: pystr where
  "fallback_text =
     u ''I apologize, but I'' @ [39] @ u ''m experiencing a brief technical issue. '' @
     u ''Could you please repeat your last message? I want to make sure '' @
     u ''I capture everything correctly. '' @ [128591]"

text \<open>
  \<open>calls\<close> is the list of the requests made so far. \<open>get_chat_response\<close> makes one
  request and returns the content, or the fixed text where the call raises.
\<close>

definition chat_request :: "message list \<Rightarrow> pystr \<Rightarrow> real \<Rightarrow> nat \<Rightarrow> request" where
  "chat_request msgs system_prompt temp maxtok =
     \<lparr>model = MODEL_NAME,
      req_messages = (if system_prompt \<noteq> [] then [(System, system_prompt)] else []) @ msgs,
      temperature = temp, max_tokens = maxtok\<rparr>"

definition get_chat_response ::
  "env \<Rightarrow> request list \<Rightarrow> message list \<Rightarrow> pystr \<Rightarrow> real \<Rightarrow> nat \<Rightarrow> pystr \<times> request list" where
  "get_chat_response E calls msgs system_prompt temp maxtok =
     (let r = chat_request msgs system_prompt temp maxtok
      in (case completions_create E (length calls) r of
            Some content \<Rightarrow> content
          | None \<Rightarrow> fallback_text,
          calls @ [r]))"

definition generate_technical_questions ::
  "env \<Rightarrow> request list \<Rightarrow> pystr \<Rightarrow> pystr \<Rightarrow> pystr \<Rightarrow> pystr \<Rightarrow> pystr \<times> request list" where
  "generate_technical_questions E calls tech name experience positions =
     (let prompt = TECH_QUESTIONS_PROMPT E name experience positions tech
      in get_chat_response E calls [(User, prompt)] [] (6 / 10) 2048)"

definition dict_get :: "('k \<times> 'v) list \<Rightarrow> 'k \<Rightarrow> 'v \<Rightarrow> 'v" where
  "dict_get d k dflt = (case map_of d k of Some v \<Rightarrow> v | None \<Rightarrow> dflt)"

definition analyze_sentiment :: "env \<Rightarrow> request list \<Rightarrow> pystr \<Rightarrow> pystr \<times> request list" where
  "analyze_sentiment E calls message =
     (let prompt = SENTIMENT_PROMPT E message;
          (response, calls') = get_chat_response E calls [(User, prompt)] [] (3 / 10) 100
      in (case loads E (strip response) of
            Some (JObj pairs) \<Rightarrow>
              (let data = py_dict pairs
               in case sentiment_result E
                         (dict_get data (u ''sentiment'') (JStr (u ''neutral'')))
                         (dict_get data (u ''confidence'') (JFloat (Finite (1 / 2)))) of
                    Some label \<Rightarrow> label
                  | None \<Rightarrow> u ''neutral'')
          | _ \<Rightarrow> u ''neutral'',
          calls'))"

section \<open>conversation.py\<close>

record ConversationManager =
  state :: ConversationState
  candidate :: CandidateInfo
  messages :: "message list"
  technical_questions_asked :: bool
  current_sentiment :: pystr
  raw_tech_questions :: pystr

definition init :: ConversationManager where
  "init =
     \<lparr>state = GREETING, candidate = empty_candidate, messages = [],
      technical_questions_asked = False, current_sentiment = u ''neutral'',
      raw_tech_questions = []\<rparr>"

text \<open>
  Every method takes the engine and the requests made so far, and returns its result
  with the engine and the requests afterwards.
\<close>

definition repr_dict :: "env \<Rightarrow> (pystr \<times> pystr) list \<Rightarrow> pystr" where
  "repr_dict E d =
     u ''{'' @ join (u '', '') (map (\<lambda>(k, v). repr_of E k @ u '': '' @ repr_of E v) d) @ u ''}''"

fun state_descriptions :: "env \<Rightarrow> CandidateInfo \<Rightarrow> ConversationState \<Rightarrow> pystr" where
  "state_descriptions E c GREETING =
     u ''You are greeting the candidate for the first time. Welcome them and ask for their name.''"
| "state_descriptions E c GATHERING_INFO =
     u ''You are collecting candidate information. Missing fields: '' @
     join (u '', '') (get_missing_fields c) @ u ''. Collected: '' @
     repr_dict E (get_filled_fields c)"
| "state_descriptions E c TECH_QUESTIONS =
     u ''You have collected all candidate info and are now presenting technical screening questions based on their tech stack.''"
| "state_descriptions E c ANSWERING_QUESTIONS =
     u ''The candidate is answering technical questions. Evaluate their responses and guide them through the remaining questions.''"
| "state_descriptions E c CLOSING =
     u ''The screening is complete. Thank the candidate and inform them about next steps.''"
| "state_descriptions E c ENDED = u ''The conversation has ended.''"

definition build_system_prompt :: "env \<Rightarrow> ConversationManager \<Rightarrow> pystr" where
  "build_system_prompt E self =
     SYSTEM_PROMPT E (state_descriptions E (candidate self) (state self))
       (get_summary (candidate self))"

definition generate_greeting ::
  "env \<Rightarrow> ConversationManager \<Rightarrow> request list \<Rightarrow> pystr \<times> ConversationManager \<times> request list" where
  "generate_greeting E self calls =
     (let (response, calls') =
            get_chat_response E calls [(User, GREETING_PROMPT E)] (build_system_prompt E self)
              TEMPERATURE MAX_TOKENS
      in (response,
          self\<lparr>state := GATHERING_INFO, messages := messages self @ [(Assistant, response)]\<rparr>,
          calls'))"

text \<open>\<open>value or default\<close> on an optional string.\<close>

definition or_default :: "pystr option \<Rightarrow> pystr \<Rightarrow> pystr" where
  "or_default v d = (case v of None \<Rightarrow> d | Some s \<Rightarrow> if s \<noteq> [] then s else d)"

definition generate_tech_questions ::
  "env \<Rightarrow> ConversationManager \<Rightarrow> request list \<Rightarrow> pystr \<times> request list" where
  "generate_tech_questions E self calls =
     generate_technical_questions E calls
       (or_default (tech_stack (candidate self)) (u ''General Programming''))
       (or_default (full_name (candidate self)) (u ''Candidate''))
       (or_default (years_of_experience (candidate self)) (u ''Unknown''))
       (or_default (desired_positions (candidate self)) (u ''Software Engineer''))"

text \<open>
  The body of the loop over \<open>extracted.items()\<close>. A key that is none of the seven
  field names leaves the profile as it is: either the object has no such attribute, or the
  attribute is a method or an internal of the pydantic base class, which this model does
  not cover.
\<close>

definition py_str :: "env \<Rightarrow> json \<Rightarrow> pystr" where
  "py_str E v = (case v of JStr s \<Rightarrow> s | _ \<Rightarrow> str_of E v)"

definition merge_item :: "env \<Rightarrow> CandidateInfo \<Rightarrow> pystr \<times> json \<Rightarrow> CandidateInfo" where
  "merge_item E c kv =
     (case kv of (name, v) \<Rightarrow>
        if truthy v \<and> v \<noteq> JStr (u ''null'') then
          (case field_of_name name of
             Some f \<Rightarrow>
               (case getattr c f of
                  None \<Rightarrow> setattr c f (Some (py_str E v))
                | Some current \<Rightarrow> c)
           | None \<Rightarrow> c)
        else c)"

text \<open>The loop \<open>for field, value in extracted.items()\<close> over the members of the object.\<close>

definition merge_extracted :: "env \<Rightarrow> CandidateInfo \<Rightarrow> (pystr \<times> json) list \<Rightarrow> CandidateInfo" where
  "merge_extracted E c members = foldl (merge_item E) c (py_dict members)"

fun is_substring :: "pystr \<Rightarrow> pystr \<Rightarrow> bool" where
  "is_substring k [] = (k = [])"
| "is_substring k (c # cs) = (startswith (c # cs) k \<or> is_substring k cs)"

text \<open>
  Lines 138 to 148 of \<open>_handle_info_gathering\<close>: the test
  \<open>extracted_json and "extracted" in extracted_json\<close>, the merge of the extracted fields
  and the test of \<open>all_collected\<close>. Where the value under \<open>"extracted"\<close> is not an
  object, \<open>extracted.items()\<close> raises \<open>AttributeError\<close> before any field is written; a
  decoded value that is not an object raises \<open>TypeError\<close> at the membership test or at
  the subscript.
\<close>

definition apply_extraction ::
  "env \<Rightarrow> ConversationManager \<Rightarrow> json option \<Rightarrow> exn + ConversationManager" where
  "apply_extraction E self extracted_json =
     (case extracted_json of
        None \<Rightarrow> Inr self
      | Some j \<Rightarrow>
          if \<not> truthy j then Inr self
          else
            (case j of
               JObj pairs \<Rightarrow>
                 (let d = py_dict pairs in
                  case map_of d (u ''extracted'') of
                    None \<Rightarrow> Inr self
                  | Some (JObj members) \<Rightarrow>
                      (let c = merge_extracted E (candidate self) members;
                           self1 = self\<lparr>candidate := c\<rparr>
                       in if truthy (dict_get d (u ''all_collected'') JNull) \<or> is_complete c
                          then Inr (self1\<lparr>state := TECH_QUESTIONS\<rparr>)
                          else Inr self1)
                  | Some other \<Rightarrow> Inl AttributeError)
             | JArr xs \<Rightarrow> if JStr (u ''extracted'') \<in> set xs then Inl TypeError else Inr self
             | JStr s \<Rightarrow> if is_substring (u ''extracted'') s then Inl TypeError else Inr self
             | other \<Rightarrow> Inl TypeError))"

definition not_yet_collected :: pystr where
  "not_yet_collected = [10060] @ u '' Not yet collected''"

definition field_status :: "CandidateInfo \<Rightarrow> field \<Rightarrow> pystr" where
  "field_status c f = or_default (getattr c f) not_yet_collected"

definition handle_info_gathering ::
  "env \<Rightarrow> ConversationManager \<Rightarrow> request list \<Rightarrow> pystr \<Rightarrow>
   (exn + pystr) \<times> ConversationManager \<times> request list" where
  "handle_info_gathering E self calls user_message =
     (let prompt = INFO_GATHERING_PROMPT E (field_status (candidate self));
          (response, calls1) =
            get_chat_response E calls (messages self)
              (build_system_prompt E self @ [10, 10] @ prompt) TEMPERATURE MAX_TOKENS
      in case apply_extraction E self (extract_json_from_response (loads E) response) of
           Inl e \<Rightarrow> (Inl e, self, calls1)
         | Inr self1 \<Rightarrow>
             (let self2 =
                    (if is_complete (candidate self1) \<and> state self1 \<noteq> TECH_QUESTIONS
                     then self1\<lparr>state := TECH_QUESTIONS\<rparr> else self1);
                  clean_response = strip_json_from_response response
              in if state self2 = TECH_QUESTIONS \<and> \<not> technical_questions_asked self2 then
                   (let (tech_questions, calls2) = generate_tech_questions E self2 calls1
                    in (Inr (rstrip clean_response @ [10, 10] @ tech_questions),
                        self2\<lparr>raw_tech_questions := tech_questions,
                              technical_questions_asked := True,
                              state := ANSWERING_QUESTIONS\<rparr>,
                        calls2))
                 else (Inr clean_response, self2, calls1)))"

definition handle_tech_interaction ::
  "env \<Rightarrow> ConversationManager \<Rightarrow> request list \<Rightarrow> pystr \<Rightarrow>
   (exn + pystr) \<times> ConversationManager \<times> request list" where
  "handle_tech_interaction E self calls user_message =
     (let (response, calls') =
            get_chat_response E calls (messages self) (build_system_prompt E self)
              TEMPERATURE MAX_TOKENS
      in (Inr response, self, calls'))"

definition handle_closing ::
  "env \<Rightarrow> ConversationManager \<Rightarrow> request list \<Rightarrow>
   (exn + pystr) \<times> ConversationManager \<times> request list" where
  "handle_closing E self calls =
     (let prompt = CLOSING_PROMPT E (or_default (full_name (candidate self)) (u ''there''))
                     (or_default (desired_positions (candidate self)) (u ''the position''));
          (response, calls') =
            get_chat_response E calls [(User, prompt)] (build_system_prompt E self)
              TEMPERATURE MAX_TOKENS
      in (Inr response, self\<lparr>state := ENDED\<rparr>, calls'))"

text \<open>The decimal digits of a natural number, for the percentage in the exit prompt.\<close>

fun decimal :: "nat \<Rightarrow> pystr" where
  "decimal n = (if n < 10 then [48 + n] else decimal (n div 10) @ [48 + n mod 10])"

declare decimal.simps [simp del]

definition handle_exit ::
  "env \<Rightarrow> ConversationManager \<Rightarrow> request list \<Rightarrow> pystr \<times> ConversationManager \<times> request list" where
  "handle_exit E self calls =
     (let info_status =
            (if is_complete (candidate self) then u ''Complete''
             else u ''Partial ('' @ decimal (nat (get_completion_percentage (candidate self))) @
                  u ''% complete)'');
          prompt = EXIT_DETECTED_PROMPT E (or_default (full_name (candidate self)) (u ''there''))
                     info_status;
          (response, calls') =
            get_chat_response E calls [(User, prompt)] (build_system_prompt E self)
              TEMPERATURE MAX_TOKENS
      in (response, self\<lparr>state := ENDED\<rparr>, calls'))"

text \<open>\<open>self.messages[-6:]\<close>.\<close>

definition last6 :: "'a list \<Rightarrow> 'a list" where
  "last6 xs = drop (length xs - 6) xs"

definition handle_fallback ::
  "env \<Rightarrow> ConversationManager \<Rightarrow> request list \<Rightarrow> pystr \<Rightarrow>
   (exn + pystr) \<times> ConversationManager \<times> request list" where
  "handle_fallback E self calls user_message =
     (let prompt = FALLBACK_PROMPT E user_message (state_value (state self));
          (response, calls') =
            get_chat_response E calls (last6 (messages self))
              (build_system_prompt E self @ [10, 10] @ prompt) TEMPERATURE MAX_TOKENS
      in (Inr response, self, calls'))"

definition analyze_sentiment_of ::
  "env \<Rightarrow> ConversationManager \<Rightarrow> request list \<Rightarrow> pystr \<Rightarrow>
   pystr \<times> ConversationManager \<times> request list" where
  "analyze_sentiment_of E self calls message =
     (let (sentiment, calls') = analyze_sentiment E calls message
      in (sentiment, self\<lparr>current_sentiment := sentiment\<rparr>, calls'))"

definition process_message ::
  "env \<Rightarrow> ConversationManager \<Rightarrow> request list \<Rightarrow> pystr \<Rightarrow>
   (exn + pystr \<times> pystr) \<times> ConversationManager \<times> request list" where
  "process_message E self0 calls0 user_message0 =
     (let user_message = sanitize_input user_message0;
          self = self0\<lparr>messages := messages self0 @ [(User, user_message)]\<rparr>
      in if check_exit_intent (lower E) user_message EXIT_KEYWORDS then
           (let (response, self1, calls1) = handle_exit E self calls0
            in (Inr (response, current_sentiment self1), self1, calls1))
         else
           (let (sentiment_label, self1, calls1) = analyze_sentiment_of E self calls0 user_message;
                (r, self2, calls2) =
                  (if state self1 = GATHERING_INFO then
                     handle_info_gathering E self1 calls1 user_message
                   else if state self1 = TECH_QUESTIONS \<or> state self1 = ANSWERING_QUESTIONS then
                     handle_tech_interaction E self1 calls1 user_message
                   else if state self1 = CLOSING then handle_closing E self1 calls1
                   else handle_fallback E self1 calls1 user_message)
            in case r of
                 Inl e \<Rightarrow> (Inl e, self2, calls2)
               | Inr response \<Rightarrow>
                   (Inr (response, sentiment_label),
                    self2\<lparr>messages := messages self2 @ [(Assistant, response)]\<rparr>,
                    calls2)))"

section \<open>A concrete environment\<close>

text \<open>
  The statements about the engine hold for every environment. The concrete inputs below
  need one. \<open>json_decode\<close> decodes the JSON texts that have no fraction, exponent,
  \<open>\u\<close> escape, \<open>NaN\<close> or \<open>Infinity\<close>, as \<open>json.loads\<close> does: whitespace is space,
  tab, line feed and carriage return, a string has no raw control character, and nothing
  but whitespace may follow the value. On the other JSON texts it returns \<open>None\<close>, so it
  is used on texts of the first kind only. The first argument of the three parsers bounds
  the nesting and the number of members; the length of the text is enough.
\<close>

definition json_ws :: "nat \<Rightarrow> bool" where
  "json_ws c \<longleftrightarrow> c = 32 \<or> c = 9 \<or> c = 10 \<or> c = 13"

definition skip_ws :: "pystr \<Rightarrow> pystr" where
  "skip_ws s = dropWhile json_ws s"

definition unescape :: "nat \<Rightarrow> nat option" where
  "unescape e =
     (if e = 34 then Some 34 else if e = 92 then Some 92 else if e = 47 then Some 47
      else if e = of_char CHR ''b'' then Some 8 else if e = of_char CHR ''f'' then Some 12
      else if e = of_char CHR ''n'' then Some 10 else if e = of_char CHR ''r'' then Some 13
      else if e = of_char CHR ''t'' then Some 9 else None)"

fun scan_string :: "pystr \<Rightarrow> (pystr \<times> pystr) option" where
  "scan_string [] = None"
| "scan_string [c] = (if c = 34 then Some ([], []) else None)"
| "scan_string (c # e # cs) =
     (if c = 34 then Some ([], e # cs)
      else if c = 92 then
        (case unescape e of
           None \<Rightarrow> None
         | Some x \<Rightarrow> map_option (\<lambda>(s, r). (x # s, r)) (scan_string cs))
      else if c < 32 then None
      else map_option (\<lambda>(s, r). (c # s, r)) (scan_string (e # cs)))"

definition ascii_digit :: "nat \<Rightarrow> bool" where
  "ascii_digit c \<longleftrightarrow> 48 \<le> c \<and> c \<le> 57"

definition scan_int :: "pystr \<Rightarrow> (json \<times> pystr) option" where
  "scan_int s =
     (let neg = (s \<noteq> [] \<and> hd s = of_char CHR ''-'');
          body = (if neg then tl s else s);
          ds = takeWhile ascii_digit body;
          rest = dropWhile ascii_digit body;
          n = foldl (\<lambda>a d. 10 * a + int (d - 48)) 0 ds
      in if ds = [] \<or> (hd ds = 48 \<and> length ds > 1) then None
         else if rest \<noteq> [] \<and> (hd rest = of_char CHR ''.'' \<or> hd rest = of_char CHR ''e'' \<or>
                              hd rest = of_char CHR ''E'') then None
         else Some (JInt (if neg then - n else n), rest))"

fun parse_value :: "nat \<Rightarrow> pystr \<Rightarrow> (json \<times> pystr) option"
  and parse_members :: "nat \<Rightarrow> pystr \<Rightarrow> ((pystr \<times> json) list \<times> pystr) option"
  and parse_elements :: "nat \<Rightarrow> pystr \<Rightarrow> (json list \<times> pystr) option" where
  "parse_value 0 s = None"
| "parse_value (Suc n) [] = None"
| "parse_value (Suc n) (c # cs) =
     (if c = 34 then map_option (\<lambda>(t, r). (JStr t, r)) (scan_string cs)
      else if c = of_char CHR ''{'' then
        (if startswith (skip_ws cs) (u ''}'') then Some (JObj [], tl (skip_ws cs))
         else map_option (\<lambda>(kvs, r). (JObj kvs, r)) (parse_members n (skip_ws cs)))
      else if c = of_char CHR ''['' then
        (if startswith (skip_ws cs) (u '']'') then Some (JArr [], tl (skip_ws cs))
         else map_option (\<lambda>(vs, r). (JArr vs, r)) (parse_elements n (skip_ws cs)))
      else if startswith (c # cs) (u ''null'') then Some (JNull, drop 4 (c # cs))
      else if startswith (c # cs) (u ''true'') then Some (JBool True, drop 4 (c # cs))
      else if startswith (c # cs) (u ''false'') then Some (JBool False, drop 5 (c # cs))
      else scan_int (c # cs))"
| "parse_members 0 s = None"
| "parse_members (Suc n) s =
     (if \<not> startswith s [34] then None
      else case scan_string (tl s) of
             None \<Rightarrow> None
           | Some (k, r1) \<Rightarrow>
               if \<not> startswith (skip_ws r1) (u '':'') then None
               else case parse_value n (skip_ws (tl (skip_ws r1))) of
                      None \<Rightarrow> None
                    | Some (v, r3) \<Rightarrow>
                        if startswith (skip_ws r3) (u ''}'') then Some ([(k, v)], tl (skip_ws r3))
                        else if startswith (skip_ws r3) (u '','') then
                          map_option (\<lambda>(kvs, r). ((k, v) # kvs, r))
                            (parse_members n (skip_ws (tl (skip_ws r3))))
                        else None)"
| "parse_elements 0 s = None"
| "parse_elements (Suc n) s =
     (case parse_value n s of
        None \<Rightarrow> None
      | Some (v, r1) \<Rightarrow>
          if startswith (skip_ws r1) (u '']'') then Some ([v], tl (skip_ws r1))
          else if startswith (skip_ws r1) (u '','') then
            map_option (\<lambda>(vs, r). (v # vs, r)) (parse_elements n (skip_ws (tl (skip_ws r1))))
          else None)"

definition json_decode :: "pystr \<Rightarrow> json option" where
  "json_decode s =
     (case parse_value (Suc (length s)) (skip_ws s) of
        None \<Rightarrow> None
      | Some (v, r) \<Rightarrow> if skip_ws r = [] then Some v else None)"

text \<open>\<open>str.lower\<close> on ASCII text.\<close>

definition ascii_lower :: "pystr \<Rightarrow> pystr" where
  "ascii_lower s = map (\<lambda>c. if 65 \<le> c \<and> c \<le> 90 then c + 32 else c) s"

text \<open>
  An environment for ASCII conversations. Its provider answers from a list of replies,
  one for each request in turn, and raises after the last. The functions \<open>str\<close> and
  \<open>repr\<close>, the pydantic validation and the templates are not exercised by the inputs used
  here beyond being called; they are given simple values.
\<close>

definition env_of :: "pystr option list \<Rightarrow> env" where
  "env_of replies =
     \<lparr>completions_create = (\<lambda>n r. if n < length replies then replies ! n else None),
      lower = ascii_lower,
      loads = json_decode,
      str_of = (\<lambda>v. []),
      repr_of = (\<lambda>s. [39] @ s @ [39]),
      sentiment_result = (\<lambda>s c. case s of JStr l \<Rightarrow> Some l | _ \<Rightarrow> None),
      SYSTEM_PROMPT = (\<lambda>state_context candidate_context. state_context @ [10] @ candidate_context),
      GREETING_PROMPT = u ''Greet the candidate.'',
      INFO_GATHERING_PROMPT = (\<lambda>status. join [10] (map status model_fields)),
      TECH_QUESTIONS_PROMPT =
        (\<lambda>name experience positions tech. join [10] [name, experience, positions, tech]),
      FALLBACK_PROMPT = (\<lambda>message st. message @ [10] @ st),
      CLOSING_PROMPT = (\<lambda>name positions. name @ [10] @ positions),
      EXIT_DETECTED_PROMPT = (\<lambda>name info_status. name @ [10] @ info_status),
      SENTIMENT_PROMPT = (\<lambda>message. message)\<rparr>"

section \<open>Notions used in the statements and proofs\<close>

text \<open>The second step of \<open>sanitize_input\<close>: every run of whitespace becomes one space.\<close>

definition collapse :: "pystr \<Rightarrow> pystr" where
  "collapse s = re_sub [plus is_space] (u '' '') s"

text \<open>Every whitespace character is a space that is not followed by whitespace.\<close>

fun single_spaced :: "pystr \<Rightarrow> bool" where
  "single_spaced [] = True"
| "single_spaced (c # cs) =
     ((is_space c \<longrightarrow> c = 32 \<and> (cs = [] \<or> \<not> is_space (hd cs))) \<and> single_spaced cs)"

text \<open>An input of 2001 characters: 1999 letters \<open>a\<close>, a space and a \<open>b\<close>.\<close>

definition long_input :: pystr where
  "long_input = replicate 1999 97 @ u '' b''"


text \<open>A profile with two of the seven fields filled.\<close>

definition two_filled :: CandidateInfo where
  "two_filled = empty_candidate\<lparr>full_name := Some (u ''Ada''), email := Some (u ''ada@example.com'')\<rparr>"

text \<open>The input of the parsing example of the specification.\<close>

definition spec_example :: pystr where
  "spec_example =
     u ''### Tech A\<newline>1. What is recursion and why does it matter?\<newline>2. Explain Big-O notation please.\<newline>### Tech B\<newline>1. Short?\<newline>2. What is a closure and how is it used?''"

text \<open>A group has a technology, at least one question, and only questions of more than ten characters.\<close>

definition well_formed_group :: "tech_group \<Rightarrow> bool" where
  "well_formed_group g \<longleftrightarrow>
     technology g \<noteq> [] \<and> questions g \<noteq> [] \<and> list_all (\<lambda>q. length q > 10) (questions g)"


text \<open>
  Three engines used as concrete inputs: one in the information-gathering phase before any
  message, and two after the conversation has ended.
\<close>

definition gathering_engine :: ConversationManager where
  "gathering_engine = init\<lparr>state := GATHERING_INFO\<rparr>"

definition four_turns :: ConversationManager where
  "four_turns =
     init\<lparr>state := ENDED,
          messages := [(Assistant, u ''Hello, what is your name?''), (User, u ''Ada''),
                       (Assistant, u ''Thank you, goodbye.''), (User, u ''bye'')]\<rparr>"

definition ended_engine :: ConversationManager where
  "ended_engine =
     init\<lparr>state := ENDED,
          messages := [(Assistant, u ''Hello, what is your name?''), (User, u ''bye''),
                       (Assistant, u ''Goodbye.'')]\<rparr>"


text \<open>
  The engines of a conversation: the new engine, the engine after \<open>generate_greeting\<close>,
  which the caller invokes in the phase \<open>GREETING\<close> only, and the engine after any
  \<open>process_message\<close> call.
\<close>

inductive conversation :: "env \<Rightarrow> ConversationManager \<Rightarrow> request list \<Rightarrow> bool" for E where
  start: "conversation E init []"
| greeting:
    "conversation E self calls \<Longrightarrow> state self = GREETING \<Longrightarrow>
     conversation E (fst (snd (generate_greeting E self calls)))
       (snd (snd (generate_greeting E self calls)))"
| message:
    "conversation E self calls \<Longrightarrow>
     conversation E (fst (snd (process_message E self calls m)))
       (snd (snd (process_message E self calls m)))"










section \<open>String literals\<close>

lemma u_eq_iff [simp]: "u a = u b \<longleftrightarrow> a = b"
proof -
  have "inj (of_char :: char \<Rightarrow> nat)" by (rule injI) simp
  then show ?thesis unfolding u_def by (simp add: inj_map_eq_map)
qed

lemma u_Nil [simp]: "u s = [] \<longleftrightarrow> s = []"
  by (simp add: u_def)

lemma Nil_u [simp]: "[] = u s \<longleftrightarrow> s = []"
  by (simp add: u_def)

lemma length_u [simp]: "length (u s) = length s"
  by (simp add: u_def)

section \<open>Properties of \<open>sanitize_input\<close>\<close>


lemma rmatch_greedy_run:
  "rmatch [Rep cls lo None True] s p g =
     (if lo \<le> length (takeWhile cls s) then Some (g, p + length (takeWhile cls s)) else None)"
proof (induction s arbitrary: lo p)
  case Nil
  then show ?case by simp
next
  case (Cons c cs)
  show ?case
  proof (cases "cls c")
    case True
    then show ?thesis using Cons.IH [of "lo - 1" "Suc p"] by (auto split: option.splits)
  next
    case False
    then show ?thesis by simp
  qed
qed

lemma collapse_Nil: "collapse [] = []"
  by (simp add: collapse_def re_match_def plus_def)

lemma collapse_Cons:
  "collapse (c # cs) =
     (if is_space c then 32 # collapse (dropWhile is_space cs) else c # collapse cs)"
  by (simp add: collapse_def re_match_def plus_def rmatch_greedy_run dropWhile_eq_drop u_def)

lemma space_32: "is_space 32" by (simp add: is_space_def)

lemma collapse_hd: "s \<noteq> [] \<Longrightarrow> \<not> is_space (hd s) \<Longrightarrow> collapse s \<noteq> [] \<and> hd (collapse s) = hd s"
  by (cases s) (simp_all add: collapse_Cons)

lemma collapse_single_spaced: "single_spaced (collapse s)"
proof (induction "length s" arbitrary: s rule: less_induct)
  case less
  show ?case
  proof (cases s)
    case Nil
    then show ?thesis by (simp add: collapse_Nil)
  next
    case (Cons c cs)
    show ?thesis
    proof (cases "is_space c")
      case True
      let ?r = "dropWhile is_space cs"
      have len: "length ?r < length s" using Cons by (simp add: length_dropWhile_le le_imp_less_Suc)
      have ih: "single_spaced (collapse ?r)" using less [OF len] .
      have hd: "collapse ?r = [] \<or> \<not> is_space (hd (collapse ?r))"
      proof (cases "?r = []")
        case True
        then have "collapse ?r = []" by (simp only: collapse_Nil)
        then show ?thesis by blast
      next
        case False
        then have "\<not> is_space (hd ?r)" using hd_dropWhile by blast
        with False show ?thesis using collapse_hd [of ?r] by simp
      qed
      show ?thesis using Cons True ih hd by (simp add: collapse_Cons)
    next
      case False
      have "single_spaced (collapse cs)" using less [of cs] Cons by simp
      with False Cons show ?thesis by (simp add: collapse_Cons)
    qed
  qed
qed

lemma collapse_id: "single_spaced s \<Longrightarrow> collapse s = s"
proof (induction s)
  case Nil
  then show ?case by (simp add: collapse_Nil)
next
  case (Cons c cs)
  then have cs: "collapse cs = cs" by simp
  show ?case
  proof (cases "is_space c")
    case True
    with Cons.prems have c: "c = 32" and nxt: "cs = [] \<or> \<not> is_space (hd cs)" by simp_all
    from nxt have "dropWhile is_space cs = cs" by (cases cs) simp_all
    with True c cs show ?thesis by (simp add: collapse_Cons)
  next
    case False
    with cs show ?thesis by (simp add: collapse_Cons)
  qed
qed

lemma single_spaced_take: "single_spaced s \<Longrightarrow> single_spaced (take n s)"
proof (induction s arbitrary: n)
  case Nil
  then show ?case by simp
next
  case (Cons c cs)
  show ?case
  proof (cases n)
    case 0
    then show ?thesis by simp
  next
    case (Suc m)
    have "take m cs = [] \<or> hd (take m cs) = hd cs" by (cases m; cases cs) simp_all
    with Cons Suc show ?thesis by auto
  qed
qed

lemma rstrip_prefix: "rstrip s = take (length (rstrip s)) s"
proof -
  have "rev s = takeWhile is_space (rev s) @ dropWhile is_space (rev s)" by simp
  then have "s = rev (dropWhile is_space (rev s)) @ rev (takeWhile is_space (rev s))"
    by (metis rev_append rev_rev_ident)
  then show ?thesis unfolding rstrip_def by (metis append_eq_conv_conj)
qed

lemma lstrip_id: "s = [] \<or> \<not> is_space (hd s) \<Longrightarrow> lstrip s = s"
  by (cases s) (simp_all add: lstrip_def)

lemma lstrip_hd: "lstrip s = [] \<or> \<not> is_space (hd (lstrip s))"
  unfolding lstrip_def using hd_dropWhile by blast

lemma rstrip_hd: "s = [] \<or> \<not> is_space (hd s) \<Longrightarrow> rstrip s = [] \<or> \<not> is_space (hd (rstrip s))"
  by (metis rstrip_prefix hd_take take_eq_Nil2 length_greater_0_conv)

lemma rstrip_id_iff: "rstrip s = s \<longleftrightarrow> s = [] \<or> \<not> is_space (last s)"
proof (cases s rule: rev_cases)
  case Nil
  then show ?thesis by (simp add: rstrip_def)
next
  case (snoc xs x)
  show ?thesis
  proof (cases "is_space x")
    case True
    have "length (rstrip s) \<le> length xs"
      using snoc True length_dropWhile_le [of is_space "rev xs"] by (simp add: rstrip_def)
    then have "rstrip s \<noteq> s" using snoc by auto
    with snoc True show ?thesis by simp
  next
    case False
    with snoc show ?thesis by (simp add: rstrip_def)
  qed
qed

lemma sanitize_shape:
  "single_spaced (sanitize_input x) \<and> (sanitize_input x = [] \<or> \<not> is_space (hd (sanitize_input x)))"
proof -
  let ?s = "strip x"
  have hd_s: "?s = [] \<or> \<not> is_space (hd ?s)"
    unfolding strip_def using rstrip_hd [OF lstrip_hd] .
  have hd_c: "collapse ?s = [] \<or> \<not> is_space (hd (collapse ?s))"
  proof (cases "?s = []")
    case True
    then have "collapse ?s = []" by (simp only: collapse_Nil)
    then show ?thesis by blast
  next
    case False
    with hd_s show ?thesis using collapse_hd [of ?s] by simp
  qed
  have "take 2000 (collapse ?s) = [] \<or> hd (take 2000 (collapse ?s)) = hd (collapse ?s)"
    by (cases "collapse ?s") simp_all
  with hd_c have "take 2000 (collapse ?s) = [] \<or> \<not> is_space (hd (take 2000 (collapse ?s)))"
    by auto
  moreover have "single_spaced (take 2000 (collapse ?s))"
    by (rule single_spaced_take [OF collapse_single_spaced])
  ultimately show ?thesis by (simp add: sanitize_input_def collapse_def)
qed

lemma sanitize_of_shape:
  assumes "single_spaced t" and "t = [] \<or> \<not> is_space (hd t)" and "length t \<le> 2000"
  shows "sanitize_input t = rstrip t"
proof -
  have "strip t = rstrip t" using assms(2) by (simp add: strip_def lstrip_id)
  moreover have "single_spaced (rstrip t)"
    using single_spaced_take [OF assms(1), of "length (rstrip t)"] rstrip_prefix [of t] by simp
  moreover have "length (rstrip t) \<le> 2000"
    using assms(3) length_dropWhile_le [of is_space "rev t"] by (simp add: rstrip_def)
  ultimately show ?thesis
    using collapse_id [of "rstrip t"] by (simp add: sanitize_input_def collapse_def)
qed

lemma sanitize_length: "length (sanitize_input x) \<le> 2000"
  by (simp add: sanitize_input_def)

lemma sanitize_twice: "sanitize_input (sanitize_input x) = rstrip (sanitize_input x)"
  using sanitize_of_shape sanitize_shape sanitize_length by blast

text \<open>
  Claim C7, as the code has it. \<open>sanitize_input\<close> never returns more than 2000
  characters. Applying it twice gives the first result without its trailing whitespace:
  the cut at 2000 characters comes after the trimming and can leave a space at the end.
  So \<open>sanitize_input\<close> is idempotent on an input exactly when its result is empty or
  does not end in whitespace.
\<close>

theorem sanitize_idempotent_iff:
  "length (sanitize_input x) \<le> 2000 \<and>
   sanitize_input (sanitize_input x) = rstrip (sanitize_input x) \<and>
   (sanitize_input (sanitize_input x) = sanitize_input x \<longleftrightarrow>
      sanitize_input x = [] \<or> \<not> is_space (last (sanitize_input x)))"
  using sanitize_length [of x] sanitize_twice [of x] rstrip_id_iff [of "sanitize_input x"] by simp

lemma single_spaced_replicate: "\<not> is_space a \<Longrightarrow> single_spaced t \<Longrightarrow> single_spaced (replicate n a @ t)"
  by (induction n) simp_all

lemma sanitize_long_input: "sanitize_input long_input = replicate 1999 97 @ [32]"
proof -
  have a: "\<not> is_space 97" and b: "\<not> is_space 98" by (simp_all add: is_space_def)
  have hd: "hd long_input = 97" by (simp add: long_input_def hd_append)
  have li: "long_input = replicate 1999 97 @ [32, 98]" by (simp add: long_input_def u_def)
  have l: "lstrip long_input = long_input"
    using lstrip_id [of long_input] hd a by simp
  have r: "rstrip long_input = long_input"
    using rstrip_id_iff [of long_input] b by (simp add: li)
  have "single_spaced (replicate 1999 97 @ [32, 98])"
    by (rule single_spaced_replicate [OF a]) (simp add: b)
  then have c: "collapse long_input = long_input"
    using collapse_id by (simp add: li)
  have s: "strip long_input = long_input" using l r by (simp add: strip_def)
  have "sanitize_input long_input = take 2000 (collapse (strip long_input))"
    by (simp add: sanitize_input_def collapse_def)
  also have "\<dots> = take 2000 long_input" by (simp only: s c)
  also have "\<dots> = replicate 1999 97 @ [32]" by (simp add: li)
  finally show ?thesis .
qed

text \<open>
  Claim C7 as stated fails: on \<open>long_input\<close> the first result keeps the space at
  position 2000 and the second removes it.
\<close>

theorem sanitize_not_idempotent:
  "sanitize_input (sanitize_input long_input) \<noteq> sanitize_input long_input"
proof -
  have "sanitize_input (sanitize_input long_input) = rstrip (sanitize_input long_input)"
    by (rule sanitize_twice)
  moreover have "rstrip (sanitize_input long_input) \<noteq> sanitize_input long_input"
    using rstrip_id_iff [of "sanitize_input long_input"]
    by (simp add: sanitize_long_input space_32)
  ultimately show ?thesis by simp
qed

theorem sanitize_idempotent_iff_witness:
  "sanitize_input (u ''  hi   there  '') = u ''hi there'' \<and>
   sanitize_input (sanitize_input (u ''  hi   there  '')) = sanitize_input (u ''  hi   there  '')"
  using sanitize_idempotent_iff [of "u ''  hi   there  ''"]
  by (simp add: sanitize_input_def strip_def lstrip_def rstrip_def re_match_def plus_def is_space_def u_def)

section \<open>Properties of the completion percentage\<close>
lemma filled_count_aux:
  "length (concat (map (\<lambda>(k, v). case v of None \<Rightarrow> [] | Some x \<Rightarrow> [(k, x)])
     (map (\<lambda>f. (n f, g f)) fs))) = length (filter (\<lambda>f. g f \<noteq> None) fs)"
  by (induction fs) (auto split: option.splits)

lemma missing_count_aux:
  "length (concat (map (\<lambda>(k, v). case v of None \<Rightarrow> [k] | Some x \<Rightarrow> [])
     (map (\<lambda>f. (n f, g f)) fs))) = length (filter (\<lambda>f. g f = None) fs)"
  by (induction fs) (auto split: option.splits)

lemma filled_count:
  "length (get_filled_fields c) = length (filter (\<lambda>f. getattr c f \<noteq> None) model_fields)"
  unfolding get_filled_fields_def model_dump_def by (rule filled_count_aux)

lemma missing_count:
  "length (get_missing_fields c) = length (filter (\<lambda>f. getattr c f = None) model_fields)"
  unfolding get_missing_fields_def model_dump_def by (rule missing_count_aux)

lemma filled_plus_missing: "length (get_filled_fields c) + length (get_missing_fields c) = 7"
proof -
  have "length (filter (\<lambda>f. getattr c f \<noteq> None) model_fields) +
        length (filter (\<lambda>f. \<not> getattr c f \<noteq> None) model_fields) = length model_fields"
    by (rule sum_length_filter_compl)
  then show ?thesis by (simp add: filled_count missing_count model_fields_def)
qed

lemma is_complete_iff: "is_complete c \<longleftrightarrow> length (get_filled_fields c) = 7"
  using filled_plus_missing [of c] by (auto simp: is_complete_def)

lemma percentage_eq:
  "get_completion_percentage c = \<lfloor>real (length (get_filled_fields c)) / 7 * 100\<rfloor>"
  by (simp add: get_completion_percentage_def model_dump_def model_fields_def)

lemma getattr_setattr: "getattr (setattr c f x) g = (if g = f then x else getattr c g)"
  by (cases f; cases g) simp_all

lemma length_filter_mono:
  "(\<And>x. x \<in> set xs \<Longrightarrow> P x \<Longrightarrow> Q x) \<Longrightarrow> length (filter P xs) \<le> length (filter Q xs)"
  by (induction xs) auto

lemma filled_mono:
  "length (get_filled_fields c) \<le> length (get_filled_fields (setattr c f (Some v)))"
  unfolding filled_count by (rule length_filter_mono) (simp add: getattr_setattr)

lemma percentage_100_iff: "k \<le> 7 \<Longrightarrow> \<lfloor>real k / 7 * 100\<rfloor> = 100 \<longleftrightarrow> k = 7"
proof
  assume k: "k \<le> 7" and f: "\<lfloor>real k / 7 * 100\<rfloor> = (100::int)"
  show "k = 7"
  proof (rule ccontr)
    assume "k \<noteq> 7"
    with k have "k \<le> 6" by simp
    then have "real k \<le> 6" by simp
    then have "real k / 7 * 100 < 100" by simp
    then have "\<lfloor>real k / 7 * 100\<rfloor> < (100::int)" by (simp add: floor_less_iff)
    with f show False by simp
  qed
next
  assume "k = 7"
  then show "\<lfloor>real k / 7 * 100\<rfloor> = (100::int)" by simp
qed

text \<open>
  Claim C6, as the code has it. The percentage is \<open>100 * filled / 7\<close> with the
  fraction cut off, not rounded to the nearest integer. It does not decrease when a field
  is set, and it is 100 exactly when the profile is complete.
\<close>

theorem completion_percentage_truncates:
  "get_completion_percentage c = \<lfloor>100 * real (length (get_filled_fields c)) / 7\<rfloor> \<and>
   get_completion_percentage c \<le> get_completion_percentage (setattr c f (Some v)) \<and>
   (get_completion_percentage c = 100 \<longleftrightarrow> is_complete c)"
proof (intro conjI)
  show "get_completion_percentage c = \<lfloor>100 * real (length (get_filled_fields c)) / 7\<rfloor>"
    by (simp add: percentage_eq mult.commute)
  have "real (length (get_filled_fields c)) / 7 * 100
        \<le> real (length (get_filled_fields (setattr c f (Some v)))) / 7 * 100"
    using filled_mono [of c f v] by simp
  then show "get_completion_percentage c \<le> get_completion_percentage (setattr c f (Some v))"
    unfolding percentage_eq by (rule floor_mono)
  have "length (get_filled_fields c) \<le> 7" using filled_plus_missing [of c] by simp
  then show "get_completion_percentage c = 100 \<longleftrightarrow> is_complete c"
    unfolding percentage_eq is_complete_iff by (rule percentage_100_iff)
qed

lemma two_filled_count: "length (get_filled_fields two_filled) = 2"
  by (simp add: two_filled_def empty_candidate_def get_filled_fields_def model_dump_def model_fields_def)

text \<open>
  Claim C6 as stated fails: with two fields filled the code returns 28, and
  \<open>200 / 7\<close> rounds to 29.
\<close>

theorem completion_percentage_not_rounded:
  "get_completion_percentage two_filled = 28 \<and>
   round (100 * real (length (get_filled_fields two_filled)) / 7) = 29"
proof
  show "get_completion_percentage two_filled = 28"
    by (simp add: percentage_eq two_filled_count)
  have "round (200 / 7 :: real) = 29" unfolding round_def by simp
  then show "round (100 * real (length (get_filled_fields two_filled)) / 7) = 29"
    by (simp add: two_filled_count)
qed

section \<open>Properties of \<open>parse_technical_questions\<close>\<close>

lemma flush_well_formed:
  "list_all well_formed_group result \<Longrightarrow> list_all (\<lambda>q. length q > 10) qs \<Longrightarrow>
   list_all well_formed_group (flush result t qs)"
  by (auto simp: flush_def well_formed_group_def split: option.splits)

lemma parse_lines_well_formed:
  "list_all well_formed_group result \<Longrightarrow> list_all (\<lambda>q. length q > 10) qs \<Longrightarrow>
   list_all well_formed_group (parse_lines ls result t qs)"
proof (induction ls arbitrary: result t qs)
  case Nil
  then show ?case by (simp add: flush_well_formed)
next
  case (Cons raw rest)
  show ?case
    using Cons.prems
    by (auto simp: Let_def flush_well_formed intro!: Cons.IH split: option.splits)
qed

lemma parse_lines_no_header:
  "match_either header_re bold_re (strip raw) = None \<Longrightarrow>
   parse_lines (raw # rest) result None qs = parse_lines rest result None qs"
  by (simp add: Let_def split: option.splits)

lemmas re_defs = match_either_def re_match_def header_re_def bold_re_def numbered_re_def
  bullet_re_def star_def plus_def opt_def lazy_plus_def lazy_star_def lit_def is_space_def
  is_digit_def digit_zeros_def not_newline_def is_char_def group1_def group0_def any_char_def u_def

lemma spec_example_lines:
  "split_on 10 spec_example =
     [u ''### Tech A'', u ''1. What is recursion and why does it matter?'',
      u ''2. Explain Big-O notation please.'', u ''### Tech B'', u ''1. Short?'',
      u ''2. What is a closure and how is it used?'']"
  by (simp add: spec_example_def u_def)

lemma spec_example_parse:
  "parse_technical_questions spec_example =
     [\<lparr>technology = u ''Tech A'',
       questions = [u ''What is recursion and why does it matter?'',
                    u ''Explain Big-O notation please.'']\<rparr>,
      \<lparr>technology = u ''Tech B'',
       questions = [u ''What is a closure and how is it used?'']\<rparr>]"
  unfolding parse_technical_questions_def spec_example_lines
  by (simp add: re_defs strip_def lstrip_def rstrip_def strip_chars_def flush_def)

text \<open>
  Claim C9. Every group that \<open>parse_technical_questions\<close> returns has a technology and
  at least one question, and each of its questions has more than ten characters. A line
  that is not a header changes nothing while no technology is active. On the example of
  the specification the result is the two groups, without \<open>Short?\<close>.
\<close>

theorem parse_technical_questions_groups:
  "(\<forall>g \<in> set (parse_technical_questions response).
      technology g \<noteq> [] \<and> questions g \<noteq> [] \<and> (\<forall>q \<in> set (questions g). 10 < length q)) \<and>
   (match_either header_re bold_re (strip raw) = None \<longrightarrow>
      parse_lines (raw # rest) result None qs = parse_lines rest result None qs) \<and>
   parse_technical_questions spec_example =
     [\<lparr>technology = u ''Tech A'',
       questions = [u ''What is recursion and why does it matter?'',
                    u ''Explain Big-O notation please.'']\<rparr>,
      \<lparr>technology = u ''Tech B'',
       questions = [u ''What is a closure and how is it used?'']\<rparr>]"
proof (intro conjI)
  have "list_all well_formed_group (parse_technical_questions response)"
    unfolding parse_technical_questions_def by (rule parse_lines_well_formed) simp_all
  then show "\<forall>g \<in> set (parse_technical_questions response).
      technology g \<noteq> [] \<and> questions g \<noteq> [] \<and> (\<forall>q \<in> set (questions g). 10 < length q)"
    by (simp add: list_all_iff well_formed_group_def)
  show "match_either header_re bold_re (strip raw) = None \<longrightarrow>
      parse_lines (raw # rest) result None qs = parse_lines rest result None qs"
    using parse_lines_no_header by blast
qed (rule spec_example_parse)

theorem parse_technical_questions_groups_witness:
  "10 < length (u ''What is a closure and how is it used?'') \<and>
   parse_lines [u ''1. A question that no header precedes''] [] None [] = []"
proof -
  let ?raw = "u ''1. A question that no header precedes''"
  note t = parse_technical_questions_groups [of spec_example ?raw "[]" "[]" "[]"]
  let ?g = "\<lparr>technology = u ''Tech B'', questions = [u ''What is a closure and how is it used?'']\<rparr>"
  have "?g \<in> set (parse_technical_questions spec_example)"
    using t by simp
  with t have "\<forall>q \<in> set (questions ?g). 10 < length q" by blast
  then have a: "10 < length (u ''What is a closure and how is it used?'')"
    by simp
  have "match_either header_re bold_re (strip ?raw) = None"
    by (simp add: re_defs strip_def lstrip_def rstrip_def)
  with t have "parse_lines [?raw] [] None [] = parse_lines [] [] None []" by blast
  then have "parse_lines [?raw] [] None [] = []" by (simp add: flush_def)
  with a show ?thesis by blast
qed

section \<open>The matcher on literals, and texts without a match\<close>








section \<open>The client and the steps of a turn\<close>

lemma get_chat_response_calls:
  "snd (get_chat_response E calls msgs sys t k) = calls @ [chat_request msgs sys t k]"
  by (simp add: get_chat_response_def Let_def)

lemma get_chat_response_text:
  "fst (get_chat_response E calls msgs sys t k) =
     (case completions_create E (length calls) (chat_request msgs sys t k) of
        Some content \<Rightarrow> content | None \<Rightarrow> fallback_text)"
  by (simp add: get_chat_response_def Let_def)

lemma analyze_sentiment_of_eq:
  "analyze_sentiment_of E self calls msg =
     (fst (analyze_sentiment E calls msg),
      self\<lparr>current_sentiment := fst (analyze_sentiment E calls msg)\<rparr>,
      snd (analyze_sentiment E calls msg))"
  by (simp add: analyze_sentiment_of_def split_beta)


text \<open>Evaluation in the concrete environment.\<close>

lemmas eval_defs = sanitize_input_def strip_def lstrip_def rstrip_def re_match_def plus_def
  is_space_def check_exit_intent_def EXIT_KEYWORDS_def env_of_def ascii_lower_def u_def

lemma exit_bye:
  "check_exit_intent (lower (env_of rs)) (sanitize_input (u '' Bye for now '')) EXIT_KEYWORDS"
  by (simp add: eval_defs)

lemma no_exit_still_there:
  "\<not> check_exit_intent (lower (env_of rs)) (sanitize_input (u ''Are you still there?'')) EXIT_KEYWORDS"
  by (simp add: eval_defs)

lemma sentiment_of_failure: "json_decode (strip fallback_text) = None"
  by (simp add: fallback_text_def strip_def lstrip_def rstrip_def is_space_def json_decode_def
      skip_ws_def json_ws_def scan_int_def ascii_digit_def u_def)

lemma analyze_sentiment_failure:
  "analyze_sentiment (env_of (None # rs)) [] msg =
     (u ''neutral'', [chat_request [(User, msg)] [] (3 / 10) 100])"
  using sentiment_of_failure
  by (simp add: analyze_sentiment_def get_chat_response_def Let_def env_of_def)

section \<open>The fixed text of the client\<close>









section \<open>The phases of a conversation\<close>






section \<open>The exit short-circuit\<close>

text \<open>
  Claim C2. When exit intent is detected in the sanitized message, \<open>process_message\<close>
  returns the response of the exit handler with the sentiment that was cached before the
  call. The engine afterwards is the engine before with the user entry appended and the
  phase \<open>ENDED\<close>: the profile, the questions flag, the raw questions and the cached
  sentiment are as before, and no assistant entry is appended. The only request made is
  the one of the exit handler.
\<close>

theorem exit_short_circuit:
  assumes "check_exit_intent (lower E) (sanitize_input m) EXIT_KEYWORDS"
  shows "process_message E self calls m =
           (Inr (fst (handle_exit E (self\<lparr>messages := messages self @ [(User, sanitize_input m)]\<rparr>) calls),
                 current_sentiment self),
            self\<lparr>messages := messages self @ [(User, sanitize_input m)], state := ENDED\<rparr>,
            calls @ [chat_request
                       [(User, EXIT_DETECTED_PROMPT E (or_default (full_name (candidate self)) (u ''there''))
                          (if is_complete (candidate self) then u ''Complete''
                           else u ''Partial ('' @ decimal (nat (get_completion_percentage (candidate self))) @
                                u ''% complete)''))]
                       (build_system_prompt E (self\<lparr>messages := messages self @ [(User, sanitize_input m)]\<rparr>))
                       TEMPERATURE MAX_TOKENS])"
  using assms
  by (simp add: process_message_def handle_exit_def Let_def split_beta get_chat_response_calls)

theorem exit_short_circuit_witness:
  "check_exit_intent (lower (env_of [Some (u ''Goodbye.'')])) (sanitize_input (u '' Bye for now ''))
     EXIT_KEYWORDS \<and>
   fst (process_message (env_of [Some (u ''Goodbye.'')]) gathering_engine [] (u '' Bye for now '')) =
     Inr (u ''Goodbye.'', u ''neutral'') \<and>
   fst (snd (process_message (env_of [Some (u ''Goodbye.'')]) gathering_engine [] (u '' Bye for now ''))) =
     gathering_engine\<lparr>messages := [(User, u ''Bye for now'')], state := ENDED\<rparr>"
proof -
  note h = exit_bye [of "[Some (u ''Goodbye.'')]"]
  have s: "sanitize_input (u '' Bye for now '') = u ''Bye for now''"
    by (simp add: eval_defs)
  have c: "current_sentiment gathering_engine = u ''neutral''" "messages gathering_engine = []"
    by (simp_all add: gathering_engine_def init_def)
  have r: "fst (handle_exit (env_of [Some (u ''Goodbye.'')]) self []) = u ''Goodbye.''" for self
    by (simp add: handle_exit_def Let_def split_beta get_chat_response_text) (simp add: env_of_def)
  from exit_short_circuit [OF h, of gathering_engine "[]"] h show ?thesis
    by (simp add: s c r)
qed

section \<open>The fallback handler\<close>

text \<open>
  Claim C5, as the code has it. The fallback handler leaves the engine, and so the phase,
  as it is. It makes one request, whose messages are the system prompt followed by the
  last six entries of the transcript (the whole transcript when it has fewer).
\<close>

theorem fallback_context:
  "fst (snd (handle_fallback E self calls m)) = self \<and>
   snd (snd (handle_fallback E self calls m)) =
     calls @ [chat_request (last6 (messages self))
                (build_system_prompt E self @ [10, 10] @ FALLBACK_PROMPT E m (state_value (state self)))
                TEMPERATURE MAX_TOKENS] \<and>
   req_messages (last (snd (snd (handle_fallback E self calls m)))) =
     (System, build_system_prompt E self @ [10, 10] @ FALLBACK_PROMPT E m (state_value (state self))) #
     drop (length (messages self) - 6) (messages self)"
  by (simp add: handle_fallback_def Let_def split_beta get_chat_response_calls chat_request_def last6_def)

text \<open>
  Claim C5 as stated fails: with four entries in the transcript the handler passes all
  four after the system prompt, not the last three.
\<close>

theorem fallback_context_not_last_three:
  "tl (req_messages (last (snd (snd (handle_fallback (env_of []) four_turns [] (u ''hello?'')))))) =
     messages four_turns \<and>
   messages four_turns \<noteq> drop (length (messages four_turns) - 3) (messages four_turns)"
  by (simp add: handle_fallback_def Let_def split_beta get_chat_response_calls chat_request_def
      last6_def four_turns_def init_def)

text \<open>
  Claim C10. In the phase \<open>ENDED\<close>, a message without exit intent is handled by the
  fallback handler and \<open>process_message\<close> returns normally: the result is the response of
  that handler with the sentiment label, the phase is still \<open>ENDED\<close>, and the sanitized
  user message and the response are appended to the transcript.
\<close>

theorem ended_turn_falls_back:
  assumes "state self = ENDED"
    and "\<not> check_exit_intent (lower E) (sanitize_input m) EXIT_KEYWORDS"
  shows "let msg = sanitize_input m;
             label = fst (analyze_sentiment E calls msg);
             calls1 = snd (analyze_sentiment E calls msg);
             self1 = self\<lparr>messages := messages self @ [(User, msg)], current_sentiment := label\<rparr>;
             response = fst (get_chat_response E calls1 (last6 (messages self1))
                               (build_system_prompt E self1 @ [10, 10] @
                                FALLBACK_PROMPT E msg (state_value ENDED))
                               TEMPERATURE MAX_TOKENS)
         in process_message E self calls m =
              (Inr (response, label),
               self\<lparr>messages := messages self @ [(User, msg), (Assistant, response)],
                     current_sentiment := label\<rparr>,
               snd (snd (handle_fallback E self1 calls1 msg))) \<and>
            handle_fallback E self1 calls1 msg =
              (Inr response, self1,
               calls1 @ [chat_request (last6 (messages self1))
                           (build_system_prompt E self1 @ [10, 10] @
                            FALLBACK_PROMPT E msg (state_value ENDED))
                           TEMPERATURE MAX_TOKENS]) \<and>
            state (fst (snd (process_message E self calls m))) = ENDED"
  using assms
  by (simp add: process_message_def analyze_sentiment_of_eq handle_fallback_def Let_def
      split_beta get_chat_response_calls)

theorem ended_turn_falls_back_witness:
  "state ended_engine = ENDED \<and>
   \<not> check_exit_intent (lower (env_of [None, Some (u ''The screening is over.'')]))
        (sanitize_input (u ''Are you still there?'')) EXIT_KEYWORDS \<and>
   fst (process_message (env_of [None, Some (u ''The screening is over.'')])
          ended_engine [] (u ''Are you still there?'')) =
     Inr (u ''The screening is over.'', u ''neutral'') \<and>
   fst (snd (process_message (env_of [None, Some (u ''The screening is over.'')])
               ended_engine [] (u ''Are you still there?''))) =
     ended_engine\<lparr>messages := messages ended_engine @
                       [(User, u ''Are you still there?''), (Assistant, u ''The screening is over.'')],
                  current_sentiment := u ''neutral''\<rparr>"
proof -
  let ?E = "env_of [None, Some (u ''The screening is over.'')]"
  have a: "state ended_engine = ENDED" by (simp add: ended_engine_def)
  note b = no_exit_still_there [of "[None, Some (u ''The screening is over.'')]"]
  have s: "sanitize_input (u ''Are you still there?'') = u ''Are you still there?''"
    by (simp add: eval_defs)
  have p: "SENTIMENT_PROMPT ?E x = x" for x by (simp add: env_of_def)
  have r: "fst (get_chat_response ?E [q] msgs sys t k) = u ''The screening is over.''" for q msgs sys t k
    by (simp add: get_chat_response_text) (simp add: env_of_def)
  from ended_turn_falls_back [OF a b, of "[]"] a b show ?thesis
    by (simp add: Let_def s analyze_sentiment_failure p r)
qed

section \<open>A failing client during information gathering\<close>





section \<open>The merge of extracted fields\<close>














section \<open>Extraction from two concrete replies\<close>





section \<open>First write wins\<close>




section \<open>The turn that completes the profile\<close>











section \<open>Removal of the fenced block\<close>































section \<open>The stripped response\<close>









end
